theory Spec2Isabelle
  imports Complex_Main "HOL-Library.Word"
begin

section \<open>JavaScript strings\<close>

text \<open>
  A JavaScript string is a sequence of UTF-16 code units; \<open>length\<close>, \<open>trim\<close> and a regular
  expression without the \<open>u\<close> flag all work on code units. \<open>js\<close> writes an ASCII literal.
\<close>

type_synonym code_unit = "16 word"
type_synonym jsstring = "code_unit list"

definition js :: "string \<Rightarrow> jsstring" where
  "js = map (\<lambda>c. of_nat (of_char c))"

text \<open>The character class \<open>[.!?]\<close> of the sentence pattern.\<close>

definition is_terminator :: "code_unit \<Rightarrow> bool" where
  "is_terminator c \<longleftrightarrow> c = 0x2E \<or> c = 0x21 \<or> c = 0x3F"

text \<open>
  The class \<open>\s\<close>, which is also what \<open>trim\<close> strips: ECMAScript WhiteSpace (TAB, VT, FF,
  SP, NBSP, ZWNBSP and the other space separators) and LineTerminator (LF, CR, LS, PS).
\<close>

definition is_space :: "code_unit \<Rightarrow> bool" where
  "is_space c \<longleftrightarrow>
     c = 0x09 \<or> c = 0x0A \<or> c = 0x0B \<or> c = 0x0C \<or> c = 0x0D \<or> c = 0x20 \<or> c = 0xA0 \<or>
     c = 0x1680 \<or> (0x2000 \<le> c \<and> c \<le> 0x200A) \<or> c = 0x2028 \<or> c = 0x2029 \<or>
     c = 0x202F \<or> c = 0x205F \<or> c = 0x3000 \<or> c = 0xFEFF"

text \<open>\<open>String.prototype.trim\<close>: strip white space at both ends.\<close>

definition js_trim :: "jsstring \<Rightarrow> jsstring" where
  "js_trim s = rev (dropWhile is_space (rev (dropWhile is_space s)))"

text \<open>\<open>Array.prototype.join\<close> on an array of strings.\<close>

fun js_join :: "jsstring \<Rightarrow> jsstring list \<Rightarrow> jsstring" where
  "js_join sep [] = []"
| "js_join sep [x] = x"
| "js_join sep (x # y # ys) = x @ sep @ js_join sep (y # ys)"

section \<open>The sentence pattern \<open>/[^.!?]+[.!?]*\s*/g\<close>\<close>

text \<open>
  A backtracking matcher in continuation-passing style, as the ECMAScript semantics of a
  pattern: \<open>re_star P s k\<close> matches the greedy quantifier \<open>*\<close> over the class \<open>P\<close> at \<open>s\<close>
  and then the rest of the pattern \<open>k\<close>: it first tries to take one more character, and
  gives the character back when the rest fails. \<open>re_plus\<close> is \<open>+\<close>. The result is the
  input left after the match, \<open>None\<close> when there is no match at this position.
\<close>

fun re_star :: "(code_unit \<Rightarrow> bool) \<Rightarrow> jsstring \<Rightarrow> (jsstring \<Rightarrow> jsstring option) \<Rightarrow> jsstring option" where
  "re_star P [] k = k []"
| "re_star P (c # cs) k =
     (if P c then (case re_star P cs k of Some r \<Rightarrow> Some r | None \<Rightarrow> k (c # cs))
      else k (c # cs))"

fun re_plus :: "(code_unit \<Rightarrow> bool) \<Rightarrow> jsstring \<Rightarrow> (jsstring \<Rightarrow> jsstring option) \<Rightarrow> jsstring option" where
  "re_plus P [] k = None"
| "re_plus P (c # cs) k = (if P c then re_star P cs k else None)"

text \<open>The pattern \<open>[^.!?]+[.!?]*\s*\<close> matched at the start of \<open>s\<close>.\<close>

definition sentence_re :: "jsstring \<Rightarrow> jsstring option" where
  "sentence_re s =
     re_plus (\<lambda>c. \<not> is_terminator c) s
       (\<lambda>r1. re_star is_terminator r1
         (\<lambda>r2. re_star is_space r2 Some))"

lemma re_star_total:
  assumes "\<And>r. k r \<noteq> None"
  shows "re_star P s k = k (dropWhile P s)"
proof (induction s)
  case Nil
  show ?case by simp
next
  case (Cons c cs)
  obtain r where "k (dropWhile P cs) = Some r"
    using assms [of "dropWhile P cs"] by auto
  with Cons show ?case by simp
qed

lemma re_star_Some: "re_star P s Some = Some (dropWhile P s)"
  by (rule re_star_total) simp

lemma sentence_re_eq:
  "sentence_re s =
     (case s of [] \<Rightarrow> None
      | c # cs \<Rightarrow> if is_terminator c then None
          else Some (dropWhile is_space (dropWhile is_terminator
                 (dropWhile (\<lambda>c. \<not> is_terminator c) cs))))"
proof (cases s)
  case Nil
  then show ?thesis by (simp add: sentence_re_def)
next
  case (Cons c cs)
  have inner: "\<And>r. re_star is_terminator r (\<lambda>r2. re_star is_space r2 Some)
      = Some (dropWhile is_space (dropWhile is_terminator r))"
    by (subst re_star_total) (simp_all add: re_star_Some)
  have "re_star (\<lambda>c. \<not> is_terminator c) cs
          (\<lambda>r1. re_star is_terminator r1 (\<lambda>r2. re_star is_space r2 Some))
        = Some (dropWhile is_space (dropWhile is_terminator
                 (dropWhile (\<lambda>c. \<not> is_terminator c) cs)))"
    by (subst re_star_total) (simp_all add: inner)
  with Cons show ?thesis by (simp add: sentence_re_def)
qed

lemma length_dropWhile_le3:
  "length (dropWhile P (dropWhile Q (dropWhile R xs))) \<le> length xs"
  by (meson length_dropWhile_le order_trans)

lemma sentence_re_shorter: "sentence_re s = Some r \<Longrightarrow> length r < length s"
  using length_dropWhile_le3 [of is_space is_terminator "\<lambda>c. \<not> is_terminator c"]
  by (auto simp: sentence_re_eq less_Suc_eq_le split: list.splits if_splits)

text \<open>
  \<open>String.prototype.match\<close> with a global pattern: search from \<open>lastIndex\<close>; where the
  pattern does not match at a position the search moves one code unit on; after a match
  the search resumes at its end. A match of this pattern is never empty, so the advance
  after an empty match does not arise. \<open>match_all\<close> collects the matched substrings.
\<close>

function match_all :: "jsstring \<Rightarrow> jsstring list" where
  "match_all s =
     (case sentence_re s of
        Some r \<Rightarrow> take (length s - length r) s # match_all r
      | None \<Rightarrow> (case s of [] \<Rightarrow> [] | c # cs \<Rightarrow> match_all cs))"
  by pat_completeness auto
termination
  by (relation "measure length") (auto dest: sentence_re_shorter)

declare match_all.simps [simp del]

text \<open>The result of \<open>match\<close> is \<open>null\<close> when nothing matched, else the array of matches.\<close>

definition js_match :: "jsstring \<Rightarrow> jsstring list option" where
  "js_match s = (case match_all s of [] \<Rightarrow> None | m # ms \<Rightarrow> Some (m # ms))"

section \<open>Summaries\<close>

record token_usage =
  prompt_tokens :: int
  completion_tokens :: int
  total_tokens :: int

text \<open>
  The object that both strategies return. The summary of the local strategy is always a
  string; the remote one passes on the content of the reply, which is a string or \<open>null\<close>
  (\<open>None\<close>).
\<close>

record SummaryResult =
  summary :: "jsstring option"
  usage :: token_usage

text \<open>
  \<open>localSummarize\<close>: the first three sentences. \<open>sentences\<close> is the constant of that
  name in its body, \<open>text.match(...) || [text]\<close>.
\<close>

definition sentences :: "jsstring \<Rightarrow> jsstring list" where
  "sentences text = (case js_match text of Some ms \<Rightarrow> ms | None \<Rightarrow> [text])"

definition localSummarize :: "jsstring \<Rightarrow> SummaryResult" where
  "localSummarize text =
     (let selection = js_trim (js_join (js '' '') (take 3 (sentences text)))
      in \<lparr> summary = Some (if selection \<noteq> [] then selection else js_trim text),
           usage = \<lparr> prompt_tokens = 0, completion_tokens = 0, total_tokens = 0 \<rparr> \<rparr>)"

section \<open>The pattern object\<close>

text \<open>
  The only state that the body of \<open>localSummarize\<close> touches is the pattern object: a
  pattern with the \<open>g\<close> flag carries a \<open>lastIndex\<close>, which \<open>exec\<close> reads and writes. The
  literal gives a new object, with \<open>lastIndex\<close> 0, each time it is evaluated, and
  \<open>localSummarize\<close> above is the function on that object. This section makes the state
  explicit, following \<open>RegExpBuiltinExec\<close> and \<open>RegExp.prototype[Symbol.match]\<close> of the
  language, and takes the state of the object as a parameter, so that what one
  invocation leaves behind can be compared with what another one finds.
\<close>

record regexp =
  lastIndex :: nat

text \<open>
  The search of \<open>RegExpBuiltinExec\<close> from index \<open>i\<close>: past the end of the string it
  fails; where the pattern does not match the index advances by one; a match gives its
  start and end index.
\<close>

function regexp_scan :: "jsstring \<Rightarrow> nat \<Rightarrow> (nat \<times> nat) option" where
  "regexp_scan S i =
     (if length S < i then None
      else (case sentence_re (drop i S) of
              Some r \<Rightarrow> Some (i, length S - length r)
            | None \<Rightarrow> regexp_scan S (Suc i)))"
  by pat_completeness auto
termination
  by (relation "measure (\<lambda>(S, i). Suc (length S) - i)") auto

declare regexp_scan.simps [simp del]

text \<open>
  \<open>RegExpBuiltinExec\<close> on a global pattern: the search starts at \<open>lastIndex\<close>; a failure
  sets \<open>lastIndex\<close> to 0, a match sets it to the end index of the match.
\<close>

definition regexp_exec :: "regexp \<Rightarrow> jsstring \<Rightarrow> jsstring option \<times> regexp" where
  "regexp_exec rx S =
     (case regexp_scan S (lastIndex rx) of
        None \<Rightarrow> (None, rx\<lparr>lastIndex := 0\<rparr>)
      | Some (b, e) \<Rightarrow> (Some (take (e - b) (drop b S)), rx\<lparr>lastIndex := e\<rparr>))"







section \<open>The remote service\<close>

text \<open>
  A thrown JavaScript value. \<open>error_code\<close> reads its \<open>code\<close> property, \<open>undefined\<close> on a
  \<open>TypeError\<close>.
\<close>

datatype error = TypeError | Error "jsstring option" jsstring

fun error_code :: "error \<Rightarrow> jsstring option" where
  "error_code TypeError = None"
| "error_code (Error c m) = c"

text \<open>A chat message; its content is a string or \<open>null\<close> (\<open>None\<close>).\<close>

record chat_message =
  role :: jsstring
  content :: "jsstring option"

record choice =
  message :: chat_message

record completion =
  choices :: "choice list"
  completion_usage :: "token_usage option"

record request =
  model :: jsstring
  messages :: "chat_message list"
  temperature :: rat
  max_tokens :: nat

text \<open>
  The client is built only when the environment variable \<open>OPENAI_API_KEY\<close> is set to a
  non-empty string; otherwise \<open>openai\<close> is \<open>null\<close>.
\<close>

datatype client = OpenAI jsstring

definition openai :: "jsstring option \<Rightarrow> client option" where
  "openai OPENAI_API_KEY =
     (case OPENAI_API_KEY of
        None \<Rightarrow> None
      | Some k \<Rightarrow> if k \<noteq> [] then Some (OpenAI k) else None)"

text \<open>
  The chat-completion endpoint is outside the program: a parameter that answers a request
  with a completion or throws. The state threaded through the calls is the trace of what
  was done: each entry into \<open>summarizeWithOpenAI\<close> and each request sent.
\<close>

type_synonym service = "client \<Rightarrow> request \<Rightarrow> error + completion"

datatype event = Remote_called jsstring | Api_request request

type_synonym trace = "event list"

text \<open>The argument of \<open>openai.chat.completions.create\<close>.\<close>

definition chat_request :: "jsstring \<Rightarrow> request" where
  "chat_request text =
     \<lparr> model = js ''gpt-3.5-turbo'',
       messages =
         [\<lparr> role = js ''system'',
            content = Some (js ''You are a helpful assistant that creates concise summaries. Generate exactly 3 sentences that capture the key points of the text.'') \<rparr>,
          \<lparr> role = js ''user'',
            content = Some (js ''Please summarize the following text in exactly 3 sentences:'' @ [0x0A, 0x0A] @ text) \<rparr>],
       temperature = 7 / 10,
       max_tokens = 300 \<rparr>"

text \<open>
  \<open>summarizeWithOpenAI\<close> reads the module's \<open>openai\<close>: on \<open>null\<close> the property access
  throws before any request; a completion without a first choice throws as well. The
  content of the first choice becomes the summary unchecked, \<open>null\<close> included.
\<close>

definition summarizeWithOpenAI ::
    "service \<Rightarrow> client option \<Rightarrow> jsstring \<Rightarrow> trace \<Rightarrow> (error + SummaryResult) \<times> trace" where
  "summarizeWithOpenAI svc cl text tr =
     (case cl of
        None \<Rightarrow> (Inl TypeError, tr @ [Remote_called text])
      | Some c \<Rightarrow>
          (let tr' = tr @ [Remote_called text, Api_request (chat_request text)] in
           case svc c (chat_request text) of
             Inl err \<Rightarrow> (Inl err, tr')
           | Inr completion \<Rightarrow>
               (case choices completion of
                  [] \<Rightarrow> (Inl TypeError, tr')
                | ch # _ \<Rightarrow>
                    (Inr \<lparr> summary = content (message ch),
                           usage = (case completion_usage completion of
                                      Some u \<Rightarrow> u
                                    | None \<Rightarrow> \<lparr> prompt_tokens = 0, completion_tokens = 0, total_tokens = 0 \<rparr>) \<rparr>,
                     tr'))))"

text \<open>
  \<open>summarizeText\<close>: the remote service when there is a client, the local summary when
  the call throws or there is no client.
\<close>

definition summarizeText ::
    "service \<Rightarrow> client option \<Rightarrow> jsstring \<Rightarrow> trace \<Rightarrow> (error + SummaryResult) \<times> trace" where
  "summarizeText svc cl text tr =
     (case cl of
        Some c \<Rightarrow>
          (case summarizeWithOpenAI svc cl text tr of
             (Inr r, tr') \<Rightarrow> (Inr r, tr')
           | (Inl err, tr') \<Rightarrow> (Inr (localSummarize text), tr'))
      | None \<Rightarrow> (Inr (localSummarize text), tr))"

section \<open>The program\<close>

text \<open>
  What \<open>main\<close> computes before it prints: the figures of the report. The reduction is
  \<open>(1 - summaryLength / originalLength) * 100\<close>, kept here as the exact quotient; the
  rounding of the double and of \<open>toFixed(1)\<close>, the word counts and the layout of the
  console output are outside the model.
\<close>

definition reduction :: "nat \<Rightarrow> nat \<Rightarrow> rat" where
  "reduction summaryLength originalLength =
     (1 - of_nat summaryLength / of_nat originalLength) * 100"

record report =
  originalLength :: nat
  report_summary :: jsstring
  summaryLength :: nat
  report_reduction :: rat
  report_usage :: token_usage

text \<open>
  How a run ends: the file could not be read (exit status 1), no text was given (the
  notice, exit status 0), the report was printed, or an error reached the handler of
  \<open>main().catch\<close> (exit status 1).
\<close>

datatype outcome = ReadFailed jsstring error | NoText | Printed report | Uncaught error

fun exit_status :: "outcome \<Rightarrow> nat" where
  "exit_status (ReadFailed p e) = 1"
| "exit_status NoText = 0"
| "exit_status (Printed r) = 0"
| "exit_status (Uncaught e) = 1"

text \<open>
  The part of \<open>main\<close> after the input has been acquired. \<open>summary.length\<close> throws a
  \<open>TypeError\<close> on a \<open>null\<close> summary, which ends the run in the handler, before any figure
  of the report is printed.
\<close>

definition process_text ::
    "service \<Rightarrow> client option \<Rightarrow> jsstring \<Rightarrow> trace \<Rightarrow> outcome \<times> trace" where
  "process_text svc cl userText tr =
     (if userText = [] then (NoText, tr)
      else
        (case summarizeText svc cl userText tr of
           (Inl err, tr') \<Rightarrow> (Uncaught err, tr')
         | (Inr res, tr') \<Rightarrow>
             (case summary res of
                None \<Rightarrow> (Uncaught TypeError, tr')
              | Some s \<Rightarrow>
                  (Printed \<lparr> originalLength = length userText,
                             report_summary = s,
                             summaryLength = length s,
                             report_reduction = reduction (length s) (length userText),
                             report_usage = usage res \<rparr>, tr'))))"

text \<open>
  The interactive path of \<open>main\<close>: every line read is appended with a newline; an
  error that ends the iteration is rethrown unless its code is \<open>ERR_USE_AFTER_CLOSE\<close>;
  the text is trimmed.
\<close>

definition main_interactive ::
    "service \<Rightarrow> client option \<Rightarrow> jsstring list \<times> error option \<Rightarrow> trace \<Rightarrow> outcome \<times> trace" where
  "main_interactive svc cl stdin tr =
     (case stdin of (lines, thrown) \<Rightarrow>
        (let userText = concat (map (\<lambda>line. line @ [0x0A]) lines) in
         case thrown of
           Some e \<Rightarrow>
             (if error_code e \<noteq> Some (js ''ERR_USE_AFTER_CLOSE'') then (Uncaught e, tr)
              else process_text svc cl (js_trim userText) tr)
         | None \<Rightarrow> process_text svc cl (js_trim userText) tr))"

text \<open>
  \<open>main\<close>: \<open>argv\<close> is \<open>process.argv.slice(2)\<close>, \<open>readFileSync\<close> the file system, \<open>stdin\<close> the
  lines that the readline interface yields and the error that ends the iteration, if any.
  A file's contents are used as they are; interactive input is trimmed.
\<close>

definition main ::
    "service \<Rightarrow> client option \<Rightarrow> (jsstring \<Rightarrow> error + jsstring) \<Rightarrow> jsstring list \<Rightarrow>
     jsstring list \<times> error option \<Rightarrow> trace \<Rightarrow> outcome \<times> trace" where
  "main svc cl readFileSync argv stdin tr =
     (case argv of
        a # _ \<Rightarrow>
          (if a \<noteq> [] then
             (case readFileSync a of
                Inl err \<Rightarrow> (ReadFailed a err, tr)
              | Inr userText \<Rightarrow> process_text svc cl userText tr)
           else main_interactive svc cl stdin tr)
      | [] \<Rightarrow> main_interactive svc cl stdin tr)"

section \<open>Concrete inputs\<close>

text \<open>
  A service that refuses every request, a service that replies with a \<open>null\<close> content,
  and a file system that holds one file: the inputs at which the theorems below are
  instantiated.
\<close>

definition refusing :: service where
  "refusing c r = Inl (Error (Some (js ''ECONNREFUSED'')) (js ''Connection error.''))"

definition null_reply :: service where
  "null_reply c r =
     Inr \<lparr> choices = [\<lparr> message = \<lparr> role = js ''assistant'', content = None \<rparr> \<rparr>],
           completion_usage = None \<rparr>"

definition one_file :: "jsstring \<Rightarrow> jsstring \<Rightarrow> jsstring \<Rightarrow> error + jsstring" where
  "one_file name contents p =
     (if p = name then Inr contents
      else Inl (Error (Some (js ''ENOENT'')) (js ''no such file or directory'')))"

section \<open>Properties of the sentence pattern\<close>

lemma is_space_not_terminator: "is_space c \<Longrightarrow> \<not> is_terminator c"
  by (auto simp: is_space_def is_terminator_def)

lemma match_all_Nil: "match_all [] = []"
  by (subst match_all.simps) (simp add: sentence_re_eq)

lemma match_all_terminator: "is_terminator c \<Longrightarrow> match_all (c # cs) = match_all cs"
  by (subst match_all.simps) (simp add: sentence_re_eq)

lemma match_all_sentence:
  "\<not> is_terminator c \<Longrightarrow>
   match_all (c # cs) =
     (let r = dropWhile is_space (dropWhile is_terminator (dropWhile (\<lambda>c. \<not> is_terminator c) cs))
      in take (Suc (length cs) - length r) (c # cs) # match_all r)"
  by (subst match_all.simps) (simp add: sentence_re_eq Let_def)

lemma match_all_no_terminator:
  assumes "\<forall>c\<in>set s. \<not> is_terminator c"
  shows "match_all s = (if s = [] then [] else [s])"
proof (cases s)
  case Nil
  then show ?thesis by (simp add: match_all_Nil)
next
  case (Cons c cs)
  with assms have c: "\<not> is_terminator c" and cs: "dropWhile (\<lambda>c. \<not> is_terminator c) cs = []"
    by simp_all
  from Cons show ?thesis
    by (simp add: match_all_sentence [OF c] cs match_all_Nil)
qed

lemma sentences_no_terminator:
  "\<forall>c\<in>set s. \<not> is_terminator c \<Longrightarrow> sentences s = [s]"
  by (simp add: sentences_def js_match_def match_all_no_terminator)

lemma js_join_single: "js_join sep [x] = x"
  by simp

lemma summary_single:
  "sentences text = [text] \<Longrightarrow> summary (localSummarize text) = Some (js_trim text)"
  by (simp add: localSummarize_def)

lemma js_trim_Nil_iff: "js_trim s = [] \<longleftrightarrow> (\<forall>c\<in>set s. is_space c)"
proof -
  have "set s = set (takeWhile is_space s) \<union> set (dropWhile is_space s)"
    by (metis set_append takeWhile_dropWhile_id)
  then have "(\<forall>c\<in>set (dropWhile is_space s). is_space c) \<longleftrightarrow> (\<forall>c\<in>set s. is_space c)"
    by (auto dest: set_takeWhileD)
  then show ?thesis by (simp add: js_trim_def)
qed

lemma length_filter_dropWhile: "length (filter P (dropWhile Q xs)) \<le> length (filter P xs)"
  by (induction xs) auto

lemma match_all_count: "length (match_all s) \<le> Suc (length (filter is_terminator s))"
proof (induction s rule: match_all.induct)
  case (1 s)
  show ?case
  proof (cases s)
    case Nil
    then show ?thesis by (simp add: match_all_Nil)
  next
    case (Cons c cs)
    show ?thesis
    proof (cases "is_terminator c")
      case True
      with Cons have "sentence_re s = None" by (simp add: sentence_re_eq)
      from "1.IH"(1) [OF this Cons] True Cons show ?thesis
        by (simp add: match_all_terminator)
    next
      case False
      define r1 where "r1 = dropWhile (\<lambda>c. \<not> is_terminator c) cs"
      define r where "r = dropWhile is_space (dropWhile is_terminator r1)"
      from False Cons have re: "sentence_re s = Some r"
        by (simp add: sentence_re_eq r_def r1_def)
      have ma: "match_all s = take (Suc (length cs) - length r) (c # cs) # match_all r"
        using False Cons by (simp add: match_all_sentence r_def r1_def Let_def)
      have IH: "length (match_all r) \<le> Suc (length (filter is_terminator r))"
        by (rule "1.IH"(2) [OF re])
      show ?thesis
      proof (cases r1)
        case Nil
        then have "r = []" by (simp add: r_def)
        with ma show ?thesis by (simp add: match_all_Nil)
      next
        case (Cons t ts)
        then have t: "is_terminator t"
          using hd_dropWhile [of "\<lambda>c. \<not> is_terminator c" cs] by (simp add: r1_def)
        have "length (filter is_terminator r) \<le> length (filter is_terminator ts)"
          using t Cons length_filter_dropWhile [of is_terminator is_space "dropWhile is_terminator ts"]
            length_filter_dropWhile [of is_terminator is_terminator ts]
          by (simp add: r_def)
        moreover have "length (filter is_terminator r1) \<le> length (filter is_terminator cs)"
          unfolding r1_def by (rule length_filter_dropWhile)
        ultimately have "Suc (length (filter is_terminator r)) \<le> length (filter is_terminator s)"
          using t Cons False \<open>s = c # cs\<close> by simp
        with IH ma show ?thesis by simp
      qed
    qed
  qed
qed

lemma match_all_skip:
  "\<forall>c\<in>set ts. is_terminator c \<Longrightarrow> match_all (ts @ s) = match_all s"
  by (induction ts) (simp_all add: match_all_terminator)

lemma summary_fragment:
  assumes body: "\<forall>c\<in>set body. \<not> is_terminator c"
    and terms: "\<forall>c\<in>set terms. is_terminator c"
    and trail: "\<forall>c\<in>set trail. is_space c"
  shows "summary (localSummarize (body @ terms @ trail)) = Some (js_trim (body @ terms @ trail))"
proof -
  let ?text = "body @ terms @ trail"
  have trail_nt: "\<forall>c\<in>set trail. \<not> is_terminator c"
    using trail is_space_not_terminator by blast
  have trim_trail: "js_trim trail = []"
    using trail by (simp add: js_trim_Nil_iff)
  show ?thesis
  proof (cases body)
    case Nil
    have ma: "match_all ?text = (if trail = [] then [] else [trail])"
      using Nil match_all_skip [OF terms, of trail] match_all_no_terminator [OF trail_nt]
      by simp
    show ?thesis
    proof (cases "trail = []")
      case True
      with ma have "sentences ?text = [?text]"
        by (simp add: sentences_def js_match_def)
      then show ?thesis by (rule summary_single)
    next
      case False
      with ma have "sentences ?text = [trail]"
        by (simp add: sentences_def js_match_def)
      then show ?thesis
        by (simp add: localSummarize_def trim_trail)
    qed
  next
    case (Cons b bs)
    with body have b: "\<not> is_terminator b" and bs: "\<forall>c\<in>set bs. \<not> is_terminator c"
      by simp_all
    have rest: "dropWhile is_space (dropWhile is_terminator
        (dropWhile (\<lambda>c. \<not> is_terminator c) (bs @ terms @ trail))) = []"
    proof (cases terms)
      case Nil
      then have "\<forall>c\<in>set (bs @ terms @ trail). \<not> is_terminator c"
        using bs trail_nt by auto
      then have "dropWhile (\<lambda>c. \<not> is_terminator c) (bs @ terms @ trail) = []"
        by (simp only: dropWhile_eq_Nil_conv)
      then show ?thesis by (simp only: dropWhile.simps)
    next
      case (Cons t ts)
      with terms have "dropWhile (\<lambda>c. \<not> is_terminator c) (bs @ terms @ trail) = terms @ trail"
        using bs by (simp add: dropWhile_append2)
      moreover have "dropWhile is_terminator (terms @ trail) = dropWhile is_terminator trail"
        using terms by (simp add: dropWhile_append2)
      moreover have "dropWhile is_terminator trail = trail"
        using trail_nt by (cases trail) simp_all
      moreover have "dropWhile is_space trail = []"
        using trail by simp
      ultimately show ?thesis by simp
    qed
    have "match_all ?text = [?text]"
      using Cons match_all_sentence [OF b, of "bs @ terms @ trail"] rest
      by (simp add: match_all_Nil)
    then have "sentences ?text = [?text]"
      by (simp add: sentences_def js_match_def)
    then show ?thesis by (rule summary_single)
  qed
qed

lemma length_sentences: "length (sentences s) \<le> Suc (length (filter is_terminator s))"
  using match_all_count [of s]
  by (auto simp: sentences_def js_match_def split: list.splits)

lemma take3_sentences:
  "length (filter is_terminator s) < 3 \<Longrightarrow> take 3 (sentences s) = sentences s"
  using length_sentences [of s] by simp

lemmas eval_defs = localSummarize_def sentences_def js_match_def js_def js_trim_def
  is_terminator_def is_space_def match_all_Nil match_all_terminator match_all_sentence





lemma regexp_exec_stateful:
  "fst (regexp_exec \<lparr>lastIndex = 0\<rparr> (js ''a. b'')) = Some (js ''a. '') \<and>
   fst (regexp_exec \<lparr>lastIndex = 3\<rparr> (js ''a. b'')) = Some (js ''b'')"
  by (simp add: regexp_exec_def regexp_scan.simps sentence_re_eq js_def is_terminator_def is_space_def)

lemma scenario1_local:
  "localSummarize (js ''Hello world. This is a test. Another sentence. And one more.'') =
     \<lparr> summary = Some (js ''Hello world.  This is a test.  Another sentence.''),
       usage = \<lparr> prompt_tokens = 0, completion_tokens = 0, total_tokens = 0 \<rparr> \<rparr>"
  by (simp add: eval_defs)

section \<open>Properties of the orchestration\<close>

lemma summarizeWithOpenAI_trace:
  "snd (summarizeWithOpenAI svc (Some c) text tr) = tr @ [Remote_called text, Api_request (chat_request text)]"
  by (simp add: summarizeWithOpenAI_def Let_def split: sum.splits list.splits)

lemma summarizeText_Inr: "\<exists>r tr'. summarizeText svc cl text tr = (Inr r, tr')"
  by (simp add: summarizeText_def split: option.splits prod.splits sum.splits)

text \<open>
  A reply with a \<open>null\<close> content is not an error for \<open>summarizeText\<close>; the run fails
  later, at \<open>summary.length\<close>, and ends with exit status 1.
\<close>

lemma null_content_uncaught:
  "userText \<noteq> [] \<Longrightarrow>
   process_text null_reply (Some c) userText tr =
     (Uncaught TypeError, tr @ [Remote_called userText, Api_request (chat_request userText)])"
  by (simp add: process_text_def summarizeText_def summarizeWithOpenAI_def null_reply_def Let_def)

lemma null_content_exit_status:
  "userText \<noteq> [] \<Longrightarrow> exit_status (fst (process_text null_reply (Some c) userText tr)) = 1"
  by (simp add: null_content_uncaught)

section \<open>The claims\<close>

text \<open>
  Claim C8. For every input text, the usage record that \<open>localSummarize\<close> returns has its
  three token counters (prompt, completion, total) equal to zero.
\<close>
theorem localSummarize_usage_zero:
  "prompt_tokens (usage (localSummarize text)) = 0 \<and>
   completion_tokens (usage (localSummarize text)) = 0 \<and>
   total_tokens (usage (localSummarize text)) = 0"
  by (simp add: localSummarize_def Let_def)


text \<open>
  Claim C6. When no client was built (no API credential), \<open>summarizeText\<close> returns what
  \<open>localSummarize\<close> returns and the trace is unchanged: \<open>summarizeWithOpenAI\<close> is not entered
  and no request is sent.
\<close>
theorem summarizeText_unconfigured:
  "openai key = None \<Longrightarrow>
   summarizeText svc (openai key) text tr = (Inr (localSummarize text), tr)"
  by (simp add: summarizeText_def)

theorem summarizeText_unconfigured_witness:
  "openai None = None \<and>
   summarizeText refusing (openai None) (js ''Hello. World.'') [] =
     (Inr (localSummarize (js ''Hello. World.'')), [])"
proof -
  have h: "openai None = None" by (simp add: openai_def)
  from h summarizeText_unconfigured [OF h] show ?thesis by (rule conjI)
qed

text \<open>
  Claim C2. When there is a client and the remote call throws, whatever the error,
  \<open>summarizeText\<close> returns exactly the result of \<open>localSummarize\<close> on the same text: the
  error is not surfaced, and the trace shows one entry into the remote function and one
  request, so nothing was retried.
\<close>
theorem summarizeText_fallback:
  "fst (summarizeWithOpenAI svc (Some c) text tr) = Inl err \<Longrightarrow>
   summarizeText svc (Some c) text tr =
     (Inr (localSummarize text), tr @ [Remote_called text, Api_request (chat_request text)])"
  using summarizeWithOpenAI_trace [of svc c "text" tr]
  by (cases "summarizeWithOpenAI svc (Some c) text tr") (simp add: summarizeText_def)

theorem summarizeText_fallback_witness:
  "fst (summarizeWithOpenAI refusing (openai (Some (js ''sk-test''))) (js ''Hello. World.'') [])
     = Inl (Error (Some (js ''ECONNREFUSED'')) (js ''Connection error.'')) \<and>
   summarizeText refusing (openai (Some (js ''sk-test''))) (js ''Hello. World.'') [] =
     (Inr (localSummarize (js ''Hello. World.'')),
      [Remote_called (js ''Hello. World.''), Api_request (chat_request (js ''Hello. World.''))])"
proof -
  have k: "openai (Some (js ''sk-test'')) = Some (OpenAI (js ''sk-test''))"
    by (simp add: openai_def js_def)
  have h: "fst (summarizeWithOpenAI refusing (Some (OpenAI (js ''sk-test''))) (js ''Hello. World.'') [])
     = Inl (Error (Some (js ''ECONNREFUSED'')) (js ''Connection error.''))"
    by (simp add: summarizeWithOpenAI_def refusing_def Let_def)
  from h summarizeText_fallback [OF h] show ?thesis
    by (simp only: k append_Nil simp_thms)
qed

text \<open>
  Claim C5. For every input text without a sentence terminator (\<open>.\<close>, \<open>!\<close>, \<open>?\<close>),
  \<open>localSummarize\<close> returns the trimmed input verbatim: the whole text is one fragment.
\<close>
theorem localSummarize_no_terminator:
  "\<forall>c\<in>set text. \<not> is_terminator c \<Longrightarrow>
   sentences text = [text] \<and> summary (localSummarize text) = Some (js_trim text)"
  by (simp add: sentences_no_terminator summary_single)

theorem localSummarize_no_terminator_witness:
  "filter is_terminator (js '' just some words with no punctuation '') = [] \<and>
   sentences (js '' just some words with no punctuation '') =
     [js '' just some words with no punctuation ''] \<and>
   summary (localSummarize (js '' just some words with no punctuation '')) =
     Some (js ''just some words with no punctuation'')"
proof -
  have f: "filter is_terminator (js '' just some words with no punctuation '') = []"
    by (simp add: js_def is_terminator_def)
  then have h: "\<forall>c\<in>set (js '' just some words with no punctuation '').  \<not> is_terminator c"
    by (simp only: filter_empty_conv)
  have t: "js_trim (js '' just some words with no punctuation '') = js ''just some words with no punctuation''"
    by (simp add: js_def js_trim_def is_space_def)
  from f localSummarize_no_terminator [OF h] show ?thesis
    by (simp only: t simp_thms)
qed

text \<open>
  Claim C1, as stated: every non-empty input text gets a non-empty summary. It fails on a
  text of white space only, here a single space: the input is not empty, the summary is.
\<close>
theorem localSummarize_blank_counterexample:
  "js '' '' \<noteq> [] \<and> summary (localSummarize (js '' '')) = Some []"
  by (simp add: eval_defs)

text \<open>
  Claim C1, amended. For every input text with at least one character that is not white
  space, \<open>localSummarize\<close> returns a non-empty summary, and so does \<open>summarizeText\<close> whenever
  it falls to the local strategy: there is no client, or the remote call throws.
\<close>

theorem summary_nonempty:
  assumes "\<exists>c\<in>set text. \<not> is_space c"
    and "cl = None \<or> fst (summarizeWithOpenAI svc cl text tr) = Inl err"
  shows "(\<exists>s. summary (localSummarize text) = Some s \<and> s \<noteq> []) \<and>
    (\<exists>r s. fst (summarizeText svc cl text tr) = Inr r \<and> summary r = Some s \<and> s \<noteq> [])"
proof -
  from assms(1) have "js_trim text \<noteq> []"
    by (simp add: js_trim_Nil_iff)
  then have loc: "\<exists>s. summary (localSummarize text) = Some s \<and> s \<noteq> []"
    by (simp add: localSummarize_def Let_def)
  from assms(2) have "fst (summarizeText svc cl text tr) = Inr (localSummarize text)"
    by (cases "summarizeWithOpenAI svc cl text tr")
       (auto simp: summarizeText_def split: option.splits)
  with loc show ?thesis by simp
qed

theorem summary_nonempty_witness:
  "(\<exists>c\<in>set (js '' Hi '').  \<not> is_space c) \<and>
   ((None :: client option) = None \<or> fst (summarizeWithOpenAI refusing None (js '' Hi '') []) = Inl TypeError) \<and>
   (\<exists>s. summary (localSummarize (js '' Hi '')) = Some s \<and> s \<noteq> []) \<and>
   (\<exists>r s. fst (summarizeText refusing None (js '' Hi '') []) = Inr r \<and> summary r = Some s \<and> s \<noteq> [])"
proof -
  have h1: "\<exists>c\<in>set (js '' Hi '').  \<not> is_space c"
    by (simp add: js_def is_space_def)
  have h2: "(None :: client option) = None \<or> fst (summarizeWithOpenAI refusing None (js '' Hi '') []) = Inl TypeError"
    by simp
  from h1 h2 summary_nonempty [OF h1 h2] show ?thesis by blast
qed

text \<open>
  Claim C3, as stated: a text with fewer than three terminators is returned whole, trimmed.
  It fails on two sentences: each fragment keeps the white space that follows it and the
  join adds a space, so the summary has two spaces where the text has one.
\<close>
theorem localSummarize_two_sentences_counterexample:
  "length (filter is_terminator (js ''Hello. World.'')) < 3 \<and>
   summary (localSummarize (js ''Hello. World.'')) \<noteq> Some (js_trim (js ''Hello. World.''))"
  by (simp add: eval_defs)

text \<open>
  Claim C3, amended. For every input text with fewer than three terminators no fragment is
  dropped: the summary is all the fragments of the text joined by single spaces and
  trimmed (the trimmed text when that is empty). It is the whole trimmed text when the
  text is a single fragment: characters other than terminators, then terminators, then
  white space, each run possibly empty.
\<close>

theorem localSummarize_few_terminators:
  assumes "length (filter is_terminator text) < 3"
  shows "summary (localSummarize text) =
      (let selection = js_trim (js_join (js '' '') (sentences text))
       in Some (if selection \<noteq> [] then selection else js_trim text)) \<and>
    (text = body @ terms @ trail \<and> (\<forall>c\<in>set body. \<not> is_terminator c) \<and>
       (\<forall>c\<in>set terms. is_terminator c) \<and> (\<forall>c\<in>set trail. is_space c)
     \<longrightarrow> summary (localSummarize text) = Some (js_trim text))"
  using summary_fragment [of body terms trail]
  by (auto simp add: localSummarize_def take3_sentences [OF assms] Let_def)

theorem localSummarize_few_terminators_witness:
  "length (filter is_terminator (js ''Hello. World.'')) < 3 \<and>
   sentences (js ''Hello. World.'') = [js ''Hello. '', js ''World.''] \<and>
   summary (localSummarize (js ''Hello. World.'')) = Some (js ''Hello.  World.'') \<and>
   length (filter is_terminator (js '' Hello world! '')) < 3 \<and>
   js '' Hello world! '' = js '' Hello world'' @ js ''!'' @ js '' '' \<and>
   filter is_terminator (js '' Hello world'') = [] \<and>
   filter (\<lambda>c. \<not> is_terminator c) (js ''!'') = [] \<and>
   filter (\<lambda>c. \<not> is_space c) (js '' '') = [] \<and>
   summary (localSummarize (js '' Hello world! '')) = Some (js ''Hello world!'')"
proof -
  have a1: "length (filter is_terminator (js ''Hello. World.'')) < 3"
    by (simp add: js_def is_terminator_def)
  have a2: "sentences (js ''Hello. World.'') = [js ''Hello. '', js ''World.'']"
    by (simp add: eval_defs)
  have a3: "js_trim (js_join (js '' '') [js ''Hello. '', js ''World.'']) = js ''Hello.  World.''"
    by (simp add: js_def js_trim_def is_space_def)
  have a4: "js ''Hello.  World.'' \<noteq> []"
    by (simp add: js_def)
  have b1: "length (filter is_terminator (js '' Hello world! '')) < 3"
    by (simp add: js_def is_terminator_def)
  have b2: "js '' Hello world! '' = js '' Hello world'' @ js ''!'' @ js '' ''"
    by (simp add: js_def)
  have b3: "filter is_terminator (js '' Hello world'') = []"
    by (simp add: js_def is_terminator_def)
  have b4: "filter (\<lambda>c. \<not> is_terminator c) (js ''!'') = []"
    by (simp add: js_def is_terminator_def)
  have b5: "filter (\<lambda>c. \<not> is_space c) (js '' '') = []"
    by (simp add: js_def is_space_def)
  have b6: "js_trim (js '' Hello world! '') = js ''Hello world!''"
    by (simp add: js_def js_trim_def is_space_def)
  have c1: "summary (localSummarize (js ''Hello. World.'')) = Some (js ''Hello.  World.'')"
    using localSummarize_few_terminators [OF a1, of "[]" "[]" "[]"] a4
    by (simp only: a2 a3 Let_def if_True simp_thms)
  have b3': "\<forall>c\<in>set (js '' Hello world''). \<not> is_terminator c"
    using b3 by (simp only: filter_empty_conv)
  have b4': "\<forall>c\<in>set (js ''!''). is_terminator c"
    using b4 by (simp only: filter_empty_conv not_not)
  have b5': "\<forall>c\<in>set (js '' ''). is_space c"
    using b5 by (simp only: filter_empty_conv not_not)
  have hyp: "js '' Hello world! '' = js '' Hello world'' @ js ''!'' @ js '' '' \<and>
      (\<forall>c\<in>set (js '' Hello world''). \<not> is_terminator c) \<and>
      (\<forall>c\<in>set (js ''!''). is_terminator c) \<and> (\<forall>c\<in>set (js '' ''). is_space c)"
    using b2 b3' b4' b5' by (intro conjI)
  have c2: "summary (localSummarize (js '' Hello world! '')) = Some (js ''Hello world!'')"
    using localSummarize_few_terminators [OF b1, of "js '' Hello world''" "js ''!''" "js '' ''",
        THEN conjunct2, THEN mp, OF hyp]
    by (simp only: b6)
  from a1 a2 c1 b1 b2 b3 b4 b5 c2 show ?thesis by (intro conjI)
qed

text \<open>
  Claim C4, as stated: with no client, the four-sentence input of scenario 1 gets the
  summary made of its first three sentences with single spaces between them and zero
  usage. The result differs from that record.
\<close>
theorem scenario1_single_spaces_counterexample:
  "fst (summarizeText refusing (openai None)
          (js ''Hello world. This is a test. Another sentence. And one more.'') []) \<noteq>
   Inr \<lparr> summary = Some (js ''Hello world. This is a test. Another sentence.''),
         usage = \<lparr> prompt_tokens = 0, completion_tokens = 0, total_tokens = 0 \<rparr> \<rparr>"
  by (simp add: summarizeText_def openai_def eval_defs)

text \<open>
  Claim C4, amended. With no client, the input of scenario 1 gets the summary
  \<open>Hello world.  This is a test.  Another sentence.\<close>, with two spaces after each of the
  first two sentences, and usage counters that are all zero; no remote call is made.
\<close>

theorem scenario1_summary:
  "summarizeText svc (openai None)
     (js ''Hello world. This is a test. Another sentence. And one more.'') tr =
   (Inr \<lparr> summary = Some (js ''Hello world.  This is a test.  Another sentence.''),
          usage = \<lparr> prompt_tokens = 0, completion_tokens = 0, total_tokens = 0 \<rparr> \<rparr>, tr)"
  by (simp add: summarizeText_def openai_def scenario1_local)

text \<open>
  Claim C10. For some input text the summary of \<open>localSummarize\<close> is strictly longer than
  the text, and the reduction that the report would show is negative. The text is
  \<open>a. b\<close>, of 4 code units, with the summary \<open>a.  b\<close>, of 5; there the quotient 5/4 and the
  reduction -25 are exact in binary floating point too.
\<close>

theorem summary_longer_than_text:
  "\<exists>text s. summary (localSummarize text) = Some s \<and> length text < length s \<and>
     reduction (length s) (length text) < 0 \<and>
     (\<exists>rep. fst (process_text svc None text tr) = Printed rep \<and>
        originalLength rep < summaryLength rep \<and> report_reduction rep < 0)"
proof -
  have s: "summary (localSummarize (js ''a. b'')) = Some (js ''a.  b'')"
    by (simp add: eval_defs)
  have l: "length (js ''a. b'') = 4" "length (js ''a.  b'') = 5" "js ''a. b'' \<noteq> []"
    by (simp_all add: js_def)
  have r: "reduction 5 4 < 0"
    by (simp add: reduction_def)
  have "summary (localSummarize (js ''a. b'')) = Some (js ''a.  b'') \<and>
      length (js ''a. b'') < length (js ''a.  b'') \<and>
      reduction (length (js ''a.  b'')) (length (js ''a. b'')) < 0 \<and>
      (\<exists>rep. fst (process_text svc None (js ''a. b'') tr) = Printed rep \<and>
        originalLength rep < summaryLength rep \<and> report_reduction rep < 0)"
    by (simp add: s l r process_text_def summarizeText_def)
  then show ?thesis by blast
qed

text \<open>
  Claim C9. With a file path argument the contents of the file go untrimmed to the check
  for empty input and to the summarization: for a file of white space only, and at least
  one character, the run does not end at the no-text notice with its \<open>process.exit(0)\<close>;
  \<open>summarizeText\<close> is called on the contents as they are, and what it returns decides the
  rest: a summary that is a string is reported, a \<open>null\<close> content from the remote service
  ends the run in the handler. Where the local strategy is used (no client, or the
  remote call throws) the report is printed with the empty summary, which is what
  \<open>localSummarize\<close> returns on these contents, and the run ends normally.
\<close>

theorem main_blank_file:
  assumes "argv = path # rest" and "path \<noteq> []"
    and "readFileSync path = Inr contents"
    and "contents \<noteq> []" and "\<forall>c\<in>set contents. is_space c"
  shows "main svc cl readFileSync argv stdin tr = process_text svc cl contents tr \<and>
    fst (main svc cl readFileSync argv stdin tr) \<noteq> NoText \<and>
    (\<exists>res tr'. summarizeText svc cl contents tr = (Inr res, tr') \<and>
       main svc cl readFileSync argv stdin tr =
         (case summary res of
            None \<Rightarrow> (Uncaught TypeError, tr')
          | Some s \<Rightarrow>
              (Printed \<lparr> originalLength = length contents,
                         report_summary = s,
                         summaryLength = length s,
                         report_reduction = reduction (length s) (length contents),
                         report_usage = usage res \<rparr>, tr'))) \<and>
    (cl = None \<or> fst (summarizeWithOpenAI svc cl contents tr) = Inl err \<longrightarrow>
       fst (main svc cl readFileSync argv stdin tr) =
         Printed \<lparr> originalLength = length contents,
                    report_summary = [],
                    summaryLength = 0,
                    report_reduction = 100,
                    report_usage = \<lparr> prompt_tokens = 0, completion_tokens = 0, total_tokens = 0 \<rparr> \<rparr>) \<and>
    summary (localSummarize contents) = Some []"
proof -
  have m: "main svc cl readFileSync argv stdin tr = process_text svc cl contents tr"
    using assms(1-3) by (simp add: main_def)
  obtain res tr' where st: "summarizeText svc cl contents tr = (Inr res, tr')"
    using summarizeText_Inr by blast
  have p: "process_text svc cl contents tr =
         (case summary res of
            None \<Rightarrow> (Uncaught TypeError, tr')
          | Some s \<Rightarrow>
              (Printed \<lparr> originalLength = length contents,
                         report_summary = s,
                         summaryLength = length s,
                         report_reduction = reduction (length s) (length contents),
                         report_usage = usage res \<rparr>, tr'))"
    using assms(4) st by (simp add: process_text_def)
  have n: "fst (process_text svc cl contents tr) \<noteq> NoText"
    unfolding p by (simp split: option.splits)
  have "js_trim contents = []"
    using assms(5) by (simp add: js_trim_Nil_iff)
  moreover have "\<forall>c\<in>set contents. \<not> is_terminator c"
    using assms(5) is_space_not_terminator by blast
  ultimately have e: "summary (localSummarize contents) = Some []"
    using summary_single [OF sentences_no_terminator] by simp
  have u: "usage (localSummarize contents) =
      \<lparr> prompt_tokens = 0, completion_tokens = 0, total_tokens = 0 \<rparr>"
    by (simp add: localSummarize_def Let_def)
  have r: "reduction 0 (length contents) = 100"
    by (simp add: reduction_def)
  have loc: "fst (process_text svc cl contents tr) =
         Printed \<lparr> originalLength = length contents,
                    report_summary = [],
                    summaryLength = 0,
                    report_reduction = 100,
                    report_usage = \<lparr> prompt_tokens = 0, completion_tokens = 0, total_tokens = 0 \<rparr> \<rparr>"
    if "cl = None \<or> fst (summarizeWithOpenAI svc cl contents tr) = Inl err"
  proof -
    from that have "fst (summarizeText svc cl contents tr) = Inr (localSummarize contents)"
      by (cases "summarizeWithOpenAI svc cl contents tr")
         (auto simp: summarizeText_def split: option.splits)
    with st have "res = localSummarize contents" by simp
    with p e u r show ?thesis by simp
  qed
  from m p st n e loc show ?thesis by simp
qed

theorem main_blank_file_witness:
  "[js ''notes.txt''] = js ''notes.txt'' # [] \<and> js ''notes.txt'' \<noteq> [] \<and>
   one_file (js ''notes.txt'') [0x20, 0x0A] (js ''notes.txt'') = Inr [0x20, 0x0A] \<and>
   [0x20, 0x0A] \<noteq> ([] :: jsstring) \<and> filter (\<lambda>c. \<not> is_space c) [0x20, 0x0A] = [] \<and>
   fst (main refusing None (one_file (js ''notes.txt'') [0x20, 0x0A]) [js ''notes.txt''] ([], None) []) =
     Printed \<lparr> originalLength = 2, report_summary = [], summaryLength = 0,
                report_reduction = 100,
                report_usage = \<lparr> prompt_tokens = 0, completion_tokens = 0, total_tokens = 0 \<rparr> \<rparr> \<and>
   summary (localSummarize [0x20, 0x0A]) = Some []"
proof -
  have h1: "[js ''notes.txt''] = js ''notes.txt'' # []" by simp
  have h2: "js ''notes.txt'' \<noteq> []" by (simp add: js_def)
  have h3: "one_file (js ''notes.txt'') [0x20, 0x0A] (js ''notes.txt'') = Inr [0x20, 0x0A]"
    by (simp add: one_file_def)
  have h4: "[0x20, 0x0A] \<noteq> ([] :: jsstring)" by simp
  have h5: "filter (\<lambda>c. \<not> is_space c) [0x20, 0x0A] = []"
    by (simp add: is_space_def)
  then have h5': "\<forall>c\<in>set [0x20, 0x0A]. is_space c"
    by (simp only: filter_empty_conv simp_thms)
  note t = main_blank_file [where readFileSync = "one_file (js ''notes.txt'') [0x20, 0x0A]"
      and path = "js ''notes.txt''" and svc = refusing and cl = None and stdin = "([], None)"
      and tr = "[]" and err = TypeError, OF h1 h2 h3 h4 h5']
  from t have e: "summary (localSummarize [0x20, 0x0A]) = Some []" by blast
  have len: "length [0x20, 0x0A :: code_unit] = 2" by simp
  from t [THEN conjunct2, THEN conjunct2, THEN conjunct2, THEN conjunct1, THEN mp,
      OF disjI1 [OF refl]] have
    "fst (main refusing None (one_file (js ''notes.txt'') [0x20, 0x0A]) [js ''notes.txt''] ([], None) []) =
     Printed \<lparr> originalLength = 2, report_summary = [], summaryLength = 0,
                report_reduction = 100,
                report_usage = \<lparr> prompt_tokens = 0, completion_tokens = 0, total_tokens = 0 \<rparr> \<rparr>"
    by (simp only: len)
  with h1 h2 h3 h4 h5 e show ?thesis by (intro conjI)
qed

end
